theory Spec2Isabelle
  imports Main "HOL-Library.Sublist"
begin

section \<open>Data model\<close>

text \<open>
  The program is one page script (\<^verbatim>\<open>src/app.py\<close>) that the UI framework
  re-executes top to bottom on every interaction. One execution is modelled as a function
  from the widget values of that run (\<open>inputs\<close>), the external collaborators
  (\<open>services\<close>) and the state the script can change (\<open>world\<close>) to the
  new state.

  A Python \<^verbatim>\<open>str\<close> is a sequence of Unicode code points, a
  \<^verbatim>\<open>bytes\<close> object a sequence of numbers below 256.
\<close>

type_synonym pystr = "nat list"
type_synonym pybytes = "nat list"
type_synonym path = pystr

definition str :: "string \<Rightarrow> pystr" where
  "str s = map of_char s"

definition NL :: pystr where
  "NL = [10]"

text \<open>
  The state of a remote file, \<^verbatim>\<open>processed_video.state\<close>: the enum of the
  staging library. The script only ever compares its name with \<^verbatim>\<open>"PROCESSING"\<close>.
\<close>

datatype file_state = STATE_UNSPECIFIED | PROCESSING | ACTIVE | FAILED

record handle =
  name :: pystr
  state :: file_state

text \<open>The keyword argument of \<^verbatim>\<open>multimodal_Agent.run\<close>.\<close>

datatype media = Videos "handle list" | Images "handle list" | NoMedia

text \<open>
  The external collaborators. Each call either raises (\<open>Inl\<close>, carrying what
  \<^verbatim>\<open>str(error)\<close> gives for the raised \<^verbatim>\<open>Exception\<close>) or
  returns (\<open>Inr\<close>). The staging service changes over time, so
  \<open>get_file\<close> also takes the number of fetches made before.
  \<^verbatim>\<open>st.image\<close> opens the scratch file with the imaging library, which raises
  for bytes that are no image; which bytes it opens is the library's matter and a
  parameter here (\<open>image_opens\<close>). \<^verbatim>\<open>st.video\<close> hands the bytes to the
  browser undecoded.
\<close>

record services =
  upload_file :: "path \<Rightarrow> pybytes option \<Rightarrow> pystr + handle"
  get_file :: "nat \<Rightarrow> pystr \<Rightarrow> pystr + handle"
  agent_run :: "pystr \<Rightarrow> media \<Rightarrow> pystr + pystr"
  image_opens :: "pybytes \<Rightarrow> bool"

text \<open>What one run renders, and the external calls it makes, in order.\<close>

datatype ui_event =
    Video path
  | Image path
  | Info pystr
  | Warning pystr
  | Error pystr
  | Subheader pystr
  | Markdown pystr

datatype call =
    UploadFile path
  | Sleep nat
  | GetFile pystr
  | AgentRun pystr media

record world =
  files :: "path \<rightharpoonup> pybytes"
  ui :: "ui_event list"
  calls :: "call list"
  fetches :: nat

text \<open>
  The widget values of one run. An uploader gives \<open>None\<close> when no file is
  uploaded; \<open>video_tmp\<close> and \<open>image_tmp\<close> are the names the temp-file
  facility generates in this run.
\<close>

record inputs =
  video_file :: "pybytes option"
  video_tmp :: path
  video_user_query :: pystr
  analyze_video_button :: bool
  image_file :: "pybytes option"
  image_tmp :: path
  image_user_query :: pystr
  analyze_image_button :: bool
  text_input :: pystr
  text_file :: "pybytes option"
  summary_prompt_input :: pystr
  summarize_text_button :: bool

text \<open>
  An exception that leaves the script uncaught: the strict decode of the text file, and
  the image library refusing bytes that are no image.
\<close>

datatype uncaught = UnicodeDecodeError | UnidentifiedImageError

section \<open>Library functions the script calls\<close>

text \<open>
  \<^verbatim>\<open>str.strip()\<close> removes leading and trailing whitespace, where whitespace
  is what \<^verbatim>\<open>str.isspace\<close> accepts.
\<close>

definition isspace :: "nat \<Rightarrow> bool" where
  "isspace c \<longleftrightarrow>
     (9 \<le> c \<and> c \<le> 13) \<or> (28 \<le> c \<and> c \<le> 32) \<or> c = 133 \<or> c = 160 \<or> c = 5760 \<or>
     (8192 \<le> c \<and> c \<le> 8202) \<or> c = 8232 \<or> c = 8233 \<or> c = 8239 \<or> c = 8287 \<or> c = 12288"

definition strip :: "pystr \<Rightarrow> pystr" where
  "strip s = rev (dropWhile isspace (rev (dropWhile isspace s)))"

text \<open>
  \<^verbatim>\<open>bytes.decode("utf-8")\<close> with the default strict error handling: the
  well-formed byte sequences of the Unicode standard, no overlong forms, no surrogates,
  nothing above U+10FFFF. \<open>None\<close> stands for UnicodeDecodeError.
\<close>

definition cont :: "nat \<Rightarrow> bool" where
  "cont b \<longleftrightarrow> 128 \<le> b \<and> b \<le> 191"

text \<open>
  The range of the second byte depends on the first: \<open>E0\<close> and \<open>F0\<close>
  exclude overlong forms, \<open>ED\<close> the surrogates, \<open>F4\<close> what lies above
  U+10FFFF.
\<close>

definition second_lo :: "nat \<Rightarrow> nat" where
  "second_lo b0 = (if b0 = 224 then 160 else if b0 = 240 then 144 else 128)"

definition second_hi :: "nat \<Rightarrow> nat" where
  "second_hi b0 = (if b0 = 237 then 159 else if b0 = 244 then 143 else 191)"

fun utf8_decode :: "pybytes \<Rightarrow> pystr option" where
  "utf8_decode [] = Some []"
| "utf8_decode (b0 # bs) =
     (if b0 < 128 then map_option ((#) b0) (utf8_decode bs)
      else if 194 \<le> b0 \<and> b0 \<le> 223 then
        (case bs of
           b1 # r \<Rightarrow>
             if cont b1
             then map_option ((#) ((b0 - 192) * 64 + (b1 - 128))) (utf8_decode r)
             else None
         | _ \<Rightarrow> None)
      else if 224 \<le> b0 \<and> b0 \<le> 239 then
        (case bs of
           b1 # b2 # r \<Rightarrow>
             if second_lo b0 \<le> b1 \<and> b1 \<le> second_hi b0 \<and> cont b2
             then map_option ((#) ((b0 - 224) * 4096 + (b1 - 128) * 64 + (b2 - 128)))
                    (utf8_decode r)
             else None
         | _ \<Rightarrow> None)
      else if 240 \<le> b0 \<and> b0 \<le> 244 then
        (case bs of
           b1 # b2 # b3 # r \<Rightarrow>
             if second_lo b0 \<le> b1 \<and> b1 \<le> second_hi b0 \<and> cont b2 \<and> cont b3
             then map_option
                    ((#) ((b0 - 240) * 262144 + (b1 - 128) * 4096 + (b2 - 128) * 64 + (b3 - 128)))
                    (utf8_decode r)
             else None
         | _ \<Rightarrow> None)
      else None)"

text \<open>
  \<^verbatim>\<open>Path(p).unlink(missing_ok=...)\<close>: removes the file; a missing file raises
  FileNotFoundError (\<open>None\<close>) unless \<open>missing_ok\<close> is set.
\<close>

definition unlink :: "path \<Rightarrow> bool \<Rightarrow> (path \<rightharpoonup> pybytes) \<Rightarrow> (path \<rightharpoonup> pybytes) option" where
  "unlink p missing_ok fs =
     (if p \<in> dom fs then Some (fs(p := None))
      else if missing_ok then Some fs
      else None)"

section \<open>Prompt assembly\<close>

text \<open>The three f-strings of the script, with the indentation the source has.\<close>

definition video_analysis_prompt :: "pystr \<Rightarrow> pystr" where
  "video_analysis_prompt user_query =
     NL @ str ''                            Analyze the uploaded video for content and context.'' @
     NL @ str ''                            Respond to the following query using video insights and supplementary web research:'' @
     NL @ str ''                            '' @ user_query @
     NL @
     NL @ str ''                            Provide a detailed, user-friendly, and actionable response.'' @
     NL @ str ''                            ''"

definition image_analysis_prompt :: "pystr \<Rightarrow> pystr" where
  "image_analysis_prompt user_query =
     NL @ str ''                            Analyze the uploaded image for content and context.'' @
     NL @ str ''                            Perform OCR if text is present or describe the image otherwise.'' @
     NL @ str ''                            Respond to the following query using image insights:'' @
     NL @ str ''                            '' @ user_query @
     NL @
     NL @ str ''                            Provide a detailed, user-friendly, and actionable response.'' @
     NL @ str ''                            ''"

definition summary_prompt :: "pystr \<Rightarrow> pystr \<Rightarrow> pystr" where
  "summary_prompt prompt_input text_content =
     NL @ str ''                        Summarize the following text in a concise, clear, and user-friendly manner.'' @
     NL @ str ''                        '' @
          (if strip prompt_input \<noteq> [] then prompt_input else []) @
     NL @ str ''                        '' @
     NL @ str ''                        Text to summarize:'' @
     NL @ str ''                        '' @ text_content @
     NL @ str ''                        ''"

section \<open>The page script\<close>

subsection \<open>Effects\<close>

definition render :: "ui_event \<Rightarrow> world \<Rightarrow> world" where
  "render e w = w\<lparr>ui := ui w @ [e]\<rparr>"

definition log_call :: "call \<Rightarrow> world \<Rightarrow> world" where
  "log_call c w = w\<lparr>calls := calls w @ [c]\<rparr>"

text \<open>
  \<^verbatim>\<open>with tempfile.NamedTemporaryFile(delete=False, suffix=...) as t: t.write(f.read())\<close>:
  the uploaded bytes are written to a new file that outlives the block.
\<close>

definition write_scratch :: "path \<Rightarrow> pybytes \<Rightarrow> world \<Rightarrow> world" where
  "write_scratch p bs w = w\<lparr>files := (files w)(p \<mapsto> bs)\<rparr>"

text \<open>
  \<^verbatim>\<open>Path(p).unlink(missing_ok=True)\<close> in the \<^verbatim>\<open>finally\<close> clause;
  with \<open>missing_ok\<close> set the call cannot raise, so the state is kept in the
  \<open>None\<close> branch only for totality.
\<close>

definition cleanup :: "path \<Rightarrow> world \<Rightarrow> world" where
  "cleanup p w = (case unlink p True (files w) of Some fs \<Rightarrow> w\<lparr>files := fs\<rparr> | None \<Rightarrow> w)"

subsection \<open>Polling\<close>

text \<open>
  \<^verbatim>\<open>
  while processed.state.name == "PROCESSING":
      time.sleep(1)
      processed = get_file(processed.name)
  \<close>
  The loop has no bound, so it is a partial function: \<open>None\<close> is a run that
  never leaves the loop. A raising \<^verbatim>\<open>get_file\<close> leaves the loop with
  the error.
\<close>

partial_function (option) poll ::
  "services \<Rightarrow> handle \<Rightarrow> world \<Rightarrow> ((pystr + handle) \<times> world) option" where
  "poll sv processed w =
     (if state processed = PROCESSING then
        (let w1 = log_call (Sleep 1) w;
             w2 = (log_call (GetFile (name processed)) w1)\<lparr>fetches := Suc (fetches w1)\<rparr>
         in case get_file sv (fetches w1) (name processed) of
              Inl error \<Rightarrow> Some (Inl error, w2)
            | Inr processed' \<Rightarrow> poll sv processed' w2)
      else Some (Inr processed, w))"

subsection \<open>Video and image tabs\<close>

text \<open>
  The two tabs are the same code up to the media kind: the prompt, the keyword argument of
  the model call, the rendered preview and the texts.
\<close>

datatype kind = VideoKind | ImageKind

fun analysis_prompt :: "kind \<Rightarrow> pystr \<Rightarrow> pystr" where
  "analysis_prompt VideoKind q = video_analysis_prompt q"
| "analysis_prompt ImageKind q = image_analysis_prompt q"

fun attach :: "kind \<Rightarrow> handle \<Rightarrow> media" where
  "attach VideoKind h = Videos [h]"
| "attach ImageKind h = Images [h]"

fun preview :: "kind \<Rightarrow> path \<Rightarrow> ui_event" where
  "preview VideoKind p = Video p"
| "preview ImageKind p = Image p"

fun empty_query_warning :: "kind \<Rightarrow> pystr" where
  "empty_query_warning VideoKind = str ''Please enter a question or insight to analyze the video.''"
| "empty_query_warning ImageKind = str ''Please enter a question or insight to analyze the image.''"

fun upload_info :: "kind \<Rightarrow> pystr" where
  "upload_info VideoKind = str ''Upload a video file to begin analysis.''"
| "upload_info ImageKind = str ''Upload an image file to begin analysis.''"

text \<open>
  The body of the \<^verbatim>\<open>try\<close>: staging, polling, prompt, model call, rendering of
  the result. \<open>Inl\<close> is the exception that reaches the \<^verbatim>\<open>except\<close>
  clause.
\<close>

definition try_body ::
  "kind \<Rightarrow> services \<Rightarrow> path \<Rightarrow> pystr \<Rightarrow> world \<Rightarrow> ((pystr + unit) \<times> world) option" where
  "try_body k sv p user_query w =
     (let w1 = log_call (UploadFile p) w in
      case upload_file sv p (files w p) of
        Inl error \<Rightarrow> Some (Inl error, w1)
      | Inr processed \<Rightarrow>
          (case poll sv processed w1 of
             None \<Rightarrow> None
           | Some (Inl error, w2) \<Rightarrow> Some (Inl error, w2)
           | Some (Inr processed', w2) \<Rightarrow>
               (let prompt = analysis_prompt k user_query;
                    w3 = log_call (AgentRun prompt (attach k processed')) w2
                in case agent_run sv prompt (attach k processed') of
                     Inl error \<Rightarrow> Some (Inl error, w3)
                   | Inr content \<Rightarrow>
                       Some (Inr (), render (Markdown content)
                                       (render (Subheader (str ''Analysis Result'')) w3)))))"

text \<open>
  The button handler: the emptiness test, then \<^verbatim>\<open>try/except/finally\<close> in
  the \<^verbatim>\<open>else\<close> branch only.
\<close>

definition analyze ::
  "kind \<Rightarrow> services \<Rightarrow> path \<Rightarrow> pystr \<Rightarrow> world \<Rightarrow> world option" where
  "analyze k sv p user_query w =
     (if user_query = [] then Some (render (Warning (empty_query_warning k)) w)
      else
        (case try_body k sv p user_query w of
           None \<Rightarrow> None
         | Some (Inl error, w1) \<Rightarrow>
             Some (cleanup p
                     (render (Error (str ''An error occurred during analysis: '' @ error)) w1))
         | Some (Inr _, w1) \<Rightarrow> Some (cleanup p w1)))"

text \<open>
  The preview, \<^verbatim>\<open>st.video(video_path, ...)\<close> or
  \<^verbatim>\<open>st.image(image_path, ...)\<close>, runs at page level after the scratch file is
  written, before the button and outside any \<^verbatim>\<open>try\<close>: an image that does not
  open ends the run there.
\<close>

fun opens :: "kind \<Rightarrow> services \<Rightarrow> pybytes \<Rightarrow> bool" where
  "opens VideoKind sv bs = True"
| "opens ImageKind sv bs = image_opens sv bs"

definition show_preview :: "kind \<Rightarrow> services \<Rightarrow> path \<Rightarrow> pybytes \<Rightarrow> world \<Rightarrow> uncaught + world" where
  "show_preview k sv p bs w =
     (if opens k sv bs then Inr (render (preview k p) w) else Inl UnidentifiedImageError)"

definition media_tab ::
  "kind \<Rightarrow> services \<Rightarrow> pybytes option \<Rightarrow> path \<Rightarrow> pystr \<Rightarrow> bool \<Rightarrow> world \<Rightarrow>
     (uncaught + world) option" where
  "media_tab k sv file p user_query button w =
     (case file of
        Some bs \<Rightarrow>
          (case show_preview k sv p bs (write_scratch p bs w) of
             Inl e \<Rightarrow> Some (Inl e)
           | Inr w1 \<Rightarrow>
               if button then map_option Inr (analyze k sv p user_query w1) else Some (Inr w1))
      | None \<Rightarrow> Some (Inr (render (Info (upload_info k)) w)))"

definition video_tab :: "services \<Rightarrow> inputs \<Rightarrow> world \<Rightarrow> (uncaught + world) option" where
  "video_tab sv i w =
     media_tab VideoKind sv (video_file i) (video_tmp i) (video_user_query i)
       (analyze_video_button i) w"

definition image_tab :: "services \<Rightarrow> inputs \<Rightarrow> world \<Rightarrow> (uncaught + world) option" where
  "image_tab sv i w =
     media_tab ImageKind sv (image_file i) (image_tmp i) (image_user_query i)
       (analyze_image_button i) w"

subsection \<open>Text tab\<close>

text \<open>
  The resolution of \<^verbatim>\<open>text_content\<close> runs on every execution of the page,
  before the button is looked at and outside any \<^verbatim>\<open>try\<close>.
\<close>

definition resolve_text :: "pybytes option \<Rightarrow> pystr \<Rightarrow> uncaught + pystr" where
  "resolve_text file typed =
     (case file of
        Some bs \<Rightarrow>
          (case utf8_decode bs of
             None \<Rightarrow> Inl UnicodeDecodeError
           | Some s \<Rightarrow> Inr s)
      | None \<Rightarrow> Inr typed)"

definition summarize :: "services \<Rightarrow> pystr \<Rightarrow> pystr \<Rightarrow> world \<Rightarrow> world" where
  "summarize sv prompt_input text_content w =
     (if strip text_content = [] then
        render (Warning (str ''Please provide some text or upload a file to summarize.'')) w
      else
        (let prompt = summary_prompt prompt_input text_content;
             w1 = log_call (AgentRun prompt NoMedia) w
         in case agent_run sv prompt NoMedia of
              Inl error \<Rightarrow>
                render (Error (str ''An error occurred during summarization: '' @ error)) w1
            | Inr content \<Rightarrow>
                render (Markdown content) (render (Subheader (str ''Summary Result'')) w1)))"

definition text_tab :: "services \<Rightarrow> inputs \<Rightarrow> world \<Rightarrow> uncaught + world" where
  "text_tab sv i w =
     (let w1 = render (Subheader (str ''Text Summarization'')) w in
      case resolve_text (text_file i) (text_input i) of
        Inl e \<Rightarrow> Inl e
      | Inr text_content \<Rightarrow>
          Inr (if summarize_text_button i
               then summarize sv (summary_prompt_input i) text_content w1
               else w1))"

subsection \<open>One execution of the page\<close>

text \<open>
  The three tabs run in the order of the script; an exception that no handler catches
  ends the run. The title, the header and the style sheet rendered around the tabs take
  no part in any handler and are left out.
\<close>

definition page :: "services \<Rightarrow> inputs \<Rightarrow> world \<Rightarrow> (uncaught + world) option" where
  "page sv i w =
     (case video_tab sv i w of
        None \<Rightarrow> None
      | Some (Inl e) \<Rightarrow> Some (Inl e)
      | Some (Inr w1) \<Rightarrow>
          (case image_tab sv i w1 of
             None \<Rightarrow> None
           | Some (Inl e) \<Rightarrow> Some (Inl e)
           | Some (Inr w2) \<Rightarrow> Some (text_tab sv i w2)))"

section \<open>Notions used in the statements\<close>

text \<open>
  A staging service that answers the fetches numbered \<open>f\<close>, \<open>f + 1\<close>, ... with
  the handles after the first of \<open>hs @ [final]\<close>, every handle of \<open>hs\<close> being
  in state PROCESSING.
\<close>

fun chain :: "services \<Rightarrow> nat \<Rightarrow> handle list \<Rightarrow> handle \<Rightarrow> bool" where
  "chain sv f [] final = True"
| "chain sv f (h # rest) final =
     (state h = PROCESSING \<and>
      get_file sv f (name h) = Inr (case rest of [] \<Rightarrow> final | h' # _ \<Rightarrow> h') \<and>
      chain sv (Suc f) rest final)"

text \<open>The calls of one poll per handle: the wait, then the fetch.\<close>

definition polled :: "handle list \<Rightarrow> call list" where
  "polled hs = concat (map (\<lambda>h. [Sleep 1, GetFile (name h)]) hs)"

text \<open>A staging service whose every fetch returns a handle in state PROCESSING.\<close>

definition always_processing :: "services \<Rightarrow> bool" where
  "always_processing sv =
     (\<forall>f n. case get_file sv f n of Inl _ \<Rightarrow> False | Inr h \<Rightarrow> state h = PROCESSING)"

section \<open>Concrete runs\<close>

definition empty_world :: world where
  "empty_world = \<lparr>files = Map.empty, ui = [], calls = [], fetches = 0\<rparr>"

definition idle_inputs :: inputs where
  "idle_inputs =
     \<lparr>video_file = None, video_tmp = str ''/tmp/tmpvideo.mp4'', video_user_query = [],
      analyze_video_button = False,
      image_file = None, image_tmp = str ''/tmp/tmpimage.png'', image_user_query = [],
      analyze_image_button = False,
      text_input = [], text_file = None, summary_prompt_input = [],
      summarize_text_button = False\<rparr>"

text \<open>A picture of one red pixel, as a PNG file of 69 bytes; the stubs open this file only.\<close>

definition red_pixel_png :: pybytes where
  "red_pixel_png =
     [137, 80, 78, 71, 13, 10, 26, 10, 0, 0, 0, 13, 73, 72, 68, 82, 0, 0, 0, 1, 0, 0, 0, 1, 8,
      2, 0, 0, 0, 144, 119, 83, 222, 0, 0, 0, 12, 73, 68, 65, 84, 120, 156, 99, 248, 207, 192,
      0, 0, 3, 1, 1, 0, 201, 254, 146, 239, 0, 0, 0, 0, 73, 69, 78, 68, 174, 66, 96, 130]"

definition remote :: "file_state \<Rightarrow> handle" where
  "remote st = \<lparr>name = str ''files/abc'', state = st\<rparr>"

text \<open>A staging stub that says PROCESSING twice, then ACTIVE; the model answers.\<close>

definition twice_processing :: services where
  "twice_processing =
     \<lparr>upload_file = (\<lambda>_ _. Inr (remote PROCESSING)),
      get_file = (\<lambda>n _. Inr (remote (if n = 0 then PROCESSING else ACTIVE))),
      agent_run = (\<lambda>_ _. Inr (str ''A red circle.'')),
      image_opens = (\<lambda>bs. bs = red_pixel_png)\<rparr>"

text \<open>A staging stub that never leaves PROCESSING.\<close>

definition stuck :: services where
  "stuck =
     \<lparr>upload_file = (\<lambda>_ _. Inr (remote PROCESSING)),
      get_file = (\<lambda>_ _. Inr (remote PROCESSING)),
      agent_run = (\<lambda>_ _. Inr []),
      image_opens = (\<lambda>bs. bs = red_pixel_png)\<rparr>"

text \<open>
  A staging stub whose file is PROCESSING after the upload and FAILED at the first fetch;
  the model answers all the same.
\<close>

definition fails_while_polling :: services where
  "fails_while_polling =
     \<lparr>upload_file = (\<lambda>_ _. Inr (remote PROCESSING)),
      get_file = (\<lambda>_ _. Inr (remote FAILED)),
      agent_run = (\<lambda>_ _. Inr (str ''ok'')),
      image_opens = (\<lambda>bs. bs = red_pixel_png)\<rparr>"

text \<open>A staging stub that is ready at once, and a model call that raises.\<close>

definition model_down :: services where
  "model_down =
     \<lparr>upload_file = (\<lambda>_ _. Inr (remote ACTIVE)),
      get_file = (\<lambda>_ _. Inr (remote ACTIVE)),
      agent_run = (\<lambda>_ _. Inl (str ''quota exceeded'')),
      image_opens = (\<lambda>bs. bs = red_pixel_png)\<rparr>"

text \<open>A staging stub whose second fetch raises.\<close>

definition fetch_breaks :: services where
  "fetch_breaks =
     \<lparr>upload_file = (\<lambda>_ _. Inr (remote PROCESSING)),
      get_file = (\<lambda>n _. if n = 0 then Inr (remote PROCESSING) else Inl (str ''connection reset'')),
      agent_run = (\<lambda>_ _. Inr (str ''ok'')),
      image_opens = (\<lambda>bs. bs = red_pixel_png)\<rparr>"

text \<open>Widget values: both media buttons pressed with empty queries; a video with a question.\<close>

definition both_pressed_empty :: inputs where
  "both_pressed_empty =
     idle_inputs\<lparr>video_file := Some [0, 1, 2], analyze_video_button := True,
                   image_file := Some red_pixel_png, analyze_image_button := True\<rparr>"

definition video_asked :: inputs where
  "video_asked =
     idle_inputs\<lparr>video_file := Some [0, 1, 2], video_user_query := str ''What is shown?'',
                   analyze_video_button := True\<rparr>"


text \<open>A query of a space, a tab and a space.\<close>

definition blank_query :: pystr where
  "blank_query = [32, 9, 32]"

text \<open>
  Widget values of the text tab: a file that is not UTF-8; typed text together with a file.
\<close>

definition bad_text_file :: inputs where
  "bad_text_file = idle_inputs\<lparr>text_file := Some [255]\<rparr>"

definition text_and_file :: inputs where
  "text_and_file =
     idle_inputs\<lparr>text_input := str ''typed'', text_file := Some [104, 105],
                   summarize_text_button := True\<rparr>"

section \<open>The polling loop\<close>

lemma poll_ready: "state h \<noteq> PROCESSING \<Longrightarrow> poll sv h w = Some (Inr h, w)"
  by (subst poll.simps) simp

lemma poll_fetch:
  "state h = PROCESSING \<Longrightarrow> get_file sv (fetches w) (name h) = Inr h' \<Longrightarrow>
   poll sv h w =
     poll sv h' (w\<lparr>calls := calls w @ [Sleep 1, GetFile (name h)], fetches := Suc (fetches w)\<rparr>)"
  by (subst poll.simps) (simp add: log_call_def)

lemma poll_raise:
  "state h = PROCESSING \<Longrightarrow> get_file sv (fetches w) (name h) = Inl e \<Longrightarrow>
   poll sv h w =
     Some (Inl e, w\<lparr>calls := calls w @ [Sleep 1, GetFile (name h)], fetches := Suc (fetches w)\<rparr>)"
  by (subst poll.simps) (simp add: log_call_def)

lemma polled_Cons: "polled (h # hs) = Sleep 1 # GetFile (name h) # polled hs"
  by (simp add: polled_def)

text \<open>Total correctness along a chain: one poll per PROCESSING handle, then the loop ends.\<close>

lemma poll_chain:
  "chain sv (fetches w) hs final \<Longrightarrow> state final \<noteq> PROCESSING \<Longrightarrow>
   poll sv (hd (hs @ [final])) w =
     Some (Inr final, w\<lparr>calls := calls w @ polled hs, fetches := fetches w + length hs\<rparr>)"
proof (induction hs arbitrary: w)
  case Nil
  then show ?case by (simp add: poll_ready polled_def)
next
  case (Cons h rest)
  let ?w = "w\<lparr>calls := calls w @ [Sleep 1, GetFile (name h)], fetches := Suc (fetches w)\<rparr>"
  let ?h' = "hd (rest @ [final])"
  from Cons.prems(1) have st: "state h = PROCESSING"
    by simp
  from Cons.prems(1) have gf: "get_file sv (fetches w) (name h) = Inr ?h'"
    by (cases rest) simp_all
  from Cons.prems(1) have ch: "chain sv (fetches ?w) rest final"
    by simp
  have "poll sv (hd ((h # rest) @ [final])) w = poll sv ?h' ?w"
    using poll_fetch [OF st gf] by simp
  also have "\<dots> =
      Some (Inr final, ?w\<lparr>calls := calls ?w @ polled rest, fetches := fetches ?w + length rest\<rparr>)"
    by (rule Cons.IH [OF ch Cons.prems(2)])
  also have "\<dots> =
      Some (Inr final,
            w\<lparr>calls := calls w @ polled (h # rest), fetches := fetches w + length (h # rest)\<rparr>)"
    by (simp add: polled_Cons)
  finally show ?case .
qed

text \<open>
  Partial correctness: what holds of every way out of the loop holds of a run that returns.
\<close>

lemma poll_invariant:
  assumes run: "poll sv h w = Some y"
    and ready: "\<And>h w. state h \<noteq> PROCESSING \<Longrightarrow> Q sv h w (Inr h, w)"
    and raise: "\<And>h w e. state h = PROCESSING \<Longrightarrow> get_file sv (fetches w) (name h) = Inl e \<Longrightarrow>
       Q sv h w (Inl e, w\<lparr>calls := calls w @ [Sleep 1, GetFile (name h)], fetches := Suc (fetches w)\<rparr>)"
    and step: "\<And>h w h' y. state h = PROCESSING \<Longrightarrow> get_file sv (fetches w) (name h) = Inr h' \<Longrightarrow>
       Q sv h' (w\<lparr>calls := calls w @ [Sleep 1, GetFile (name h)], fetches := Suc (fetches w)\<rparr>) y \<Longrightarrow>
       Q sv h w y"
  shows "Q sv h w y"
proof -
  have "sv0 = sv \<longrightarrow> Q sv h w y" if "poll sv0 h w = Some y" for sv0 h w y
    using that
  proof (induct rule: poll.raw_induct [rotated 1, consumes 1, case_names unfold])
    case (unfold poll sv0 processed w y)
    let ?w = "w\<lparr>calls := calls w @ [Sleep 1, GetFile (name processed)], fetches := Suc (fetches w)\<rparr>"
    show ?case
    proof
      assume sv0: "sv0 = sv"
      show "Q sv processed w y"
      proof (cases "state processed = PROCESSING")
        case False
        with unfold(2) have "y = (Inr processed, w)" by simp
        with ready [OF False] show ?thesis by simp
      next
        case True
        show ?thesis
        proof (cases "get_file sv (fetches w) (name processed)")
          case (Inl e)
          with True unfold(2) sv0 have "y = (Inl e, ?w)"
            by (simp add: log_call_def)
          with raise [OF True Inl] show ?thesis by simp
        next
          case (Inr h')
          with True unfold(2) sv0 have "poll sv0 h' ?w = Some y"
            by (simp add: log_call_def)
          from unfold(1) [OF this] sv0 have "Q sv h' ?w y"
            by simp
          with step [OF True Inr] show ?thesis by simp
        qed
      qed
    qed
  qed
  with run show ?thesis by simp
qed

text \<open>A staging service that never leaves PROCESSING keeps the loop running for ever.\<close>

lemma poll_stuck:
  assumes ap: "always_processing sv" and st: "state h = PROCESSING"
  shows "poll sv h w = None"
proof (cases "poll sv h w")
  case None
  then show ?thesis .
next
  case (Some y)
  have gf: "\<And>f n. \<exists>h'. get_file sv f n = Inr h' \<and> state h' = PROCESSING"
  proof -
    fix f n
    from ap have "case get_file sv f n of Inl _ \<Rightarrow> False | Inr h \<Rightarrow> state h = PROCESSING"
      unfolding always_processing_def by blast
    then show "\<exists>h'. get_file sv f n = Inr h' \<and> state h' = PROCESSING"
      by (cases "get_file sv f n") simp_all
  qed
  have "state h \<noteq> PROCESSING"
  proof (rule poll_invariant [where Q = "\<lambda>sv h w y. state h \<noteq> PROCESSING", OF Some])
    fix h w assume "state h \<noteq> PROCESSING" then show "state h \<noteq> PROCESSING" .
  next
    fix h :: handle and w e
    assume "get_file sv (fetches w) (name h) = Inl e"
    with gf [of "fetches w" "name h"] show "state h \<noteq> PROCESSING" by simp
  next
    fix h :: handle and w h'
    assume "get_file sv (fetches w) (name h) = Inr h'" and "state h' \<noteq> PROCESSING"
    with gf [of "fetches w" "name h"] show "state h \<noteq> PROCESSING" by simp
  qed
  with st show ?thesis by simp
qed

text \<open>The loop changes neither the files nor what is rendered, and only adds calls.\<close>

lemma poll_frame:
  assumes "poll sv h w = Some y"
  shows "files (snd y) = files w \<and> ui (snd y) = ui w"
  by (rule poll_invariant [where Q = "\<lambda>sv h w y. files (snd y) = files w \<and> ui (snd y) = ui w", OF assms])
    simp_all

lemma poll_result_state:
  assumes "poll sv h w = Some (Inr h', w')"
  shows "state h' \<noteq> PROCESSING"
proof -
  have "\<forall>h'. fst y = Inr h' \<longrightarrow> state h' \<noteq> PROCESSING" if "poll sv h w = Some y" for y
    by (rule poll_invariant
          [where Q = "\<lambda>sv h w y. \<forall>h'. fst y = Inr h' \<longrightarrow> state h' \<noteq> PROCESSING", OF that])
      simp_all
  from this [OF assms] show ?thesis by simp
qed

lemma poll_calls:
  assumes "poll sv h w = Some y"
  shows "\<exists>cs. calls (snd y) = calls w @ cs"
  by (rule poll_invariant [where Q = "\<lambda>sv h w y. \<exists>cs. calls (snd y) = calls w @ cs", OF assms])
    auto

section \<open>The video and image tabs\<close>

lemma cleanup_files: "files (cleanup p w) = (files w)(p := None)"
  by (auto simp: cleanup_def unlink_def)

lemma cleanup_other:
  "ui (cleanup p w) = ui w" "calls (cleanup p w) = calls w" "fetches (cleanup p w) = fetches w"
  by (simp_all add: cleanup_def unlink_def)

lemma cleanup_idem: "cleanup p (cleanup p w) = cleanup p w"
  by (simp add: cleanup_def unlink_def)

lemma staged_fields:
  "files (log_call c w) = files w" "ui (log_call c w) = ui w"
  "calls (log_call c w) = calls w @ [c]" "fetches (log_call c w) = fetches w"
  "files (render e w) = files w" "ui (render e w) = ui w @ [e]"
  "calls (render e w) = calls w" "fetches (render e w) = fetches w"
  "files (write_scratch p bs w) = (files w)(p \<mapsto> bs)" "ui (write_scratch p bs w) = ui w"
  "calls (write_scratch p bs w) = calls w" "fetches (write_scratch p bs w) = fetches w"
  by (simp_all add: log_call_def render_def write_scratch_def)

lemma try_body_upload_raises:
  "upload_file sv p (files w p) = Inl e \<Longrightarrow>
   try_body k sv p q w = Some (Inl e, log_call (UploadFile p) w)"
  by (simp add: try_body_def)

lemma try_body_poll_raises:
  "upload_file sv p (files w p) = Inr h \<Longrightarrow>
   poll sv h (log_call (UploadFile p) w) = Some (Inl e, w2) \<Longrightarrow>
   try_body k sv p q w = Some (Inl e, w2)"
  by (simp add: try_body_def)

lemma try_body_staged:
  "upload_file sv p (files w p) = Inr h \<Longrightarrow>
   poll sv h (log_call (UploadFile p) w) = Some (Inr h', w2) \<Longrightarrow>
   try_body k sv p q w =
     (case agent_run sv (analysis_prompt k q) (attach k h') of
        Inl e \<Rightarrow> Some (Inl e, log_call (AgentRun (analysis_prompt k q) (attach k h')) w2)
      | Inr content \<Rightarrow>
          Some (Inr (), render (Markdown content) (render (Subheader (str ''Analysis Result''))
                          (log_call (AgentRun (analysis_prompt k q) (attach k h')) w2))))"
  by (simp add: try_body_def Let_def)

lemma analyze_raised:
  "q \<noteq> [] \<Longrightarrow> try_body k sv p q w = Some (Inl e, w1) \<Longrightarrow>
   analyze k sv p q w =
     Some (cleanup p (render (Error (str ''An error occurred during analysis: '' @ e)) w1))"
  by (simp add: analyze_def)

lemma media_tab_pressed:
  "opens k sv bs \<Longrightarrow>
   media_tab k sv (Some bs) p q True w =
     map_option Inr (analyze k sv p q (render (preview k p) (write_scratch p bs w)))"
  by (simp add: media_tab_def show_preview_def)

lemma media_tab_unopened:
  "\<not> opens k sv bs \<Longrightarrow> media_tab k sv (Some bs) p q button w = Some (Inl UnidentifiedImageError)"
  by (simp add: media_tab_def show_preview_def)

lemma analyze_returned:
  "q \<noteq> [] \<Longrightarrow> try_body k sv p q w = Some (Inr u, w1) \<Longrightarrow>
   analyze k sv p q w = Some (cleanup p w1)"
  by (simp add: analyze_def)

lemma strip_blank:
  assumes "\<forall>c\<in>set q. isspace c"
  shows "strip q = []"
proof -
  from assms have d: "dropWhile isspace q = []"
    by (induction q) simp_all
  show ?thesis
    unfolding strip_def d by simp
qed

section \<open>Prompts and the text tab\<close>

lemma sublist_skip: "sublist xs ys \<Longrightarrow> sublist xs (zs @ ys)"
  by (metis append.assoc sublist_def)

lemma sublist_here: "sublist xs (xs @ ys)"
  by (rule sublist_append_rightI)

lemma summarize_blank:
  "strip t = [] \<Longrightarrow>
   summarize sv c t w =
     render (Warning (str ''Please provide some text or upload a file to summarize.'')) w"
  by (simp add: summarize_def)

lemma summarize_calls:
  "strip t \<noteq> [] \<Longrightarrow>
   calls (summarize sv c t w) = calls w @ [AgentRun (summary_prompt c t) NoMedia]"
  by (simp add: summarize_def Let_def staged_fields split: sum.split)

section \<open>Claims\<close>

text \<open>
  C3. The polling loop waits one time unit and fetches the handle again while its state is
  PROCESSING, with no bound on the number of rounds: along any number of PROCESSING
  handles it makes exactly one wait and one fetch per handle, and it returns the first
  handle whose state is not PROCESSING. A staging service that never leaves PROCESSING
  keeps it running for ever. The witness is the stub that says PROCESSING twice and then
  ACTIVE: exactly two polls, after which the video tab makes the model call.
\<close>

theorem poll_until_not_processing:
  "(chain sv (fetches w) hs final \<and> state final \<noteq> PROCESSING \<longrightarrow>
      poll sv (hd (hs @ [final])) w =
        Some (Inr final, w\<lparr>calls := calls w @ polled hs, fetches := fetches w + length hs\<rparr>)) \<and>
   (always_processing sv \<and> state h = PROCESSING \<longrightarrow> poll sv h w = None)"
  using poll_chain [of sv w hs final] poll_stuck [of sv h w] by blast

theorem poll_until_not_processing_witness:
  "chain twice_processing (fetches empty_world) [remote PROCESSING, remote PROCESSING] (remote ACTIVE) \<and>
   state (remote ACTIVE) \<noteq> PROCESSING \<and>
   poll twice_processing (remote PROCESSING) empty_world =
     Some (Inr (remote ACTIVE),
           empty_world\<lparr>calls := [Sleep 1, GetFile (str ''files/abc''), Sleep 1, GetFile (str ''files/abc'')],
                        fetches := 2\<rparr>) \<and>
   map_option (map_sum id calls) (video_tab twice_processing video_asked empty_world) =
     Some (Inr [UploadFile (str ''/tmp/tmpvideo.mp4''),
           Sleep 1, GetFile (str ''files/abc''), Sleep 1, GetFile (str ''files/abc''),
           AgentRun (video_analysis_prompt (str ''What is shown?'')) (Videos [remote ACTIVE])]) \<and>
   always_processing stuck \<and> state (remote PROCESSING) = PROCESSING \<and>
   poll stuck (remote PROCESSING) empty_world = None"
proof -
  let ?p = "str ''/tmp/tmpvideo.mp4''"
  let ?w0 = "log_call (UploadFile ?p) (render (Video ?p) (write_scratch ?p [0, 1, 2] empty_world))"
  have c: "chain twice_processing (fetches empty_world) [remote PROCESSING, remote PROCESSING] (remote ACTIVE)"
    by (simp add: twice_processing_def empty_world_def remote_def)
  have c0: "chain twice_processing (fetches ?w0) [remote PROCESSING, remote PROCESSING] (remote ACTIVE)"
    by (simp add: twice_processing_def staged_fields empty_world_def remote_def)
  have a: "state (remote ACTIVE) \<noteq> PROCESSING"
    by (simp add: remote_def)
  have s: "always_processing stuck"
    by (simp add: always_processing_def stuck_def remote_def)
  have p: "state (remote PROCESSING) = PROCESSING"
    by (simp add: remote_def)
  from poll_until_not_processing
         [where sv = twice_processing and w = empty_world
            and hs = "[remote PROCESSING, remote PROCESSING]" and final = "remote ACTIVE"
            and h = "remote PROCESSING"] c a
  have 1: "poll twice_processing (remote PROCESSING) empty_world =
     Some (Inr (remote ACTIVE),
           empty_world\<lparr>calls := [Sleep 1, GetFile (str ''files/abc''), Sleep 1, GetFile (str ''files/abc'')],
                        fetches := 2\<rparr>)"
    by (simp add: polled_def remote_def empty_world_def)
  from poll_until_not_processing
         [where sv = twice_processing and w = ?w0
            and hs = "[remote PROCESSING, remote PROCESSING]" and final = "remote ACTIVE"
            and h = "remote PROCESSING"] c0 a
  have pl: "poll twice_processing (remote PROCESSING) ?w0 =
     Some (Inr (remote ACTIVE),
           ?w0\<lparr>calls := calls ?w0 @ polled [remote PROCESSING, remote PROCESSING],
                fetches := fetches ?w0 + 2\<rparr>)"
    by simp
  have up: "upload_file twice_processing x y = Inr (remote PROCESSING)" for x y
    by (simp add: twice_processing_def)
  have ag: "agent_run twice_processing x m = Inr (str ''A red circle.'')" for x m
    by (simp add: twice_processing_def)
  have q: "str ''What is shown?'' \<noteq> []"
    by (simp add: str_def)
  let ?w2 = "?w0\<lparr>calls := calls ?w0 @ polled [remote PROCESSING, remote PROCESSING],
                  fetches := fetches ?w0 + 2\<rparr>"
  let ?run = "AgentRun (analysis_prompt VideoKind (str ''What is shown?'')) (attach VideoKind (remote ACTIVE))"
  let ?w3 = "render (Markdown (str ''A red circle.'')) (render (Subheader (str ''Analysis Result''))
               (log_call ?run ?w2))"
  have tb: "try_body VideoKind twice_processing ?p (str ''What is shown?'')
              (render (Video ?p) (write_scratch ?p [0, 1, 2] empty_world)) = Some (Inr (), ?w3)"
    using try_body_staged [OF up pl, where k = VideoKind
        and q = "str ''What is shown?''"]
    by (simp add: ag)
  have vt: "video_tab twice_processing video_asked empty_world =
      map_option Inr (analyze VideoKind twice_processing ?p (str ''What is shown?'')
        (render (Video ?p) (write_scratch ?p [0, 1, 2] empty_world)))"
    by (simp add: video_tab_def media_tab_def show_preview_def video_asked_def idle_inputs_def)
  have "video_tab twice_processing video_asked empty_world = Some (Inr (cleanup ?p ?w3))"
    unfolding vt analyze_returned [OF q tb] by simp
  then have 2: "map_option (map_sum id calls) (video_tab twice_processing video_asked empty_world) =
     Some (Inr [UploadFile ?p,
           Sleep 1, GetFile (str ''files/abc''), Sleep 1, GetFile (str ''files/abc''),
           AgentRun (video_analysis_prompt (str ''What is shown?'')) (Videos [remote ACTIVE])])"
    by (simp add: cleanup_other staged_fields polled_def empty_world_def remote_def)
  from poll_until_not_processing
         [where sv = stuck and w = empty_world and hs = "[]" and final = "remote ACTIVE"
            and h = "remote PROCESSING"] s p
  have 3: "poll stuck (remote PROCESSING) empty_world = None"
    by blast
  from c a 1 2 s p 3 show ?thesis by blast
qed

text \<open>
  C1. The scratch file is written before the query is looked at, and the deletion sits in
  the \<^verbatim>\<open>finally\<close> of the \<^verbatim>\<open>else\<close> branch only: when the button is
  pressed with an empty query, the handler renders the warning and returns with the
  scratch file of this request still on disk. (An image that does not open never gets as
  far as the button.)
\<close>

theorem scratch_file_left_after_empty_query:
  "media_tab k sv (Some bs) p [] True w =
     (if opens k sv bs
      then Some (Inr (render (Warning (empty_query_warning k))
                        (render (preview k p) (write_scratch p bs w))))
      else Some (Inl UnidentifiedImageError)) \<and>
   files (render (Warning (empty_query_warning k)) (render (preview k p) (write_scratch p bs w))) p
     = Some bs"
  by (simp add: media_tab_def show_preview_def analyze_def render_def write_scratch_def)

text \<open>
  C2. Pressing Analyze Video or Analyze Image with an empty query renders the warning and
  makes no external call: the log of calls (upload, fetch, model) and the number of
  fetches are unchanged. The image button is there to be pressed only when the uploaded
  image opens, since the preview comes first.
\<close>

theorem empty_query_warns_without_network:
  "(video_file i = Some bs \<and> analyze_video_button i \<and> video_user_query i = [] \<longrightarrow>
      (\<exists>w'. video_tab sv i w = Some (Inr w') \<and>
            ui w' = ui w @ [Video (video_tmp i),
                            Warning (str ''Please enter a question or insight to analyze the video.'')] \<and>
            calls w' = calls w \<and> fetches w' = fetches w)) \<and>
   (image_file i = Some bs \<and> image_opens sv bs \<and> analyze_image_button i \<and>
    image_user_query i = [] \<longrightarrow>
      (\<exists>w'. image_tab sv i w = Some (Inr w') \<and>
            ui w' = ui w @ [Image (image_tmp i),
                            Warning (str ''Please enter a question or insight to analyze the image.'')] \<and>
            calls w' = calls w \<and> fetches w' = fetches w))"
  by (simp add: video_tab_def image_tab_def media_tab_def show_preview_def analyze_def render_def
      write_scratch_def)

theorem empty_query_warns_without_network_witness:
  "video_file both_pressed_empty = Some [0, 1, 2] \<and> analyze_video_button both_pressed_empty \<and>
   video_user_query both_pressed_empty = [] \<and>
   (\<exists>w'. video_tab twice_processing both_pressed_empty empty_world = Some (Inr w') \<and>
         ui w' = ui empty_world @ [Video (video_tmp both_pressed_empty),
                   Warning (str ''Please enter a question or insight to analyze the video.'')] \<and>
         calls w' = calls empty_world \<and> fetches w' = fetches empty_world) \<and>
   image_file both_pressed_empty = Some red_pixel_png \<and>
   image_opens twice_processing red_pixel_png \<and>
   analyze_image_button both_pressed_empty \<and> image_user_query both_pressed_empty = [] \<and>
   (\<exists>w'. image_tab twice_processing both_pressed_empty empty_world = Some (Inr w') \<and>
         ui w' = ui empty_world @ [Image (image_tmp both_pressed_empty),
                   Warning (str ''Please enter a question or insight to analyze the image.'')] \<and>
         calls w' = calls empty_world \<and> fetches w' = fetches empty_world)"
proof -
  have v: "video_file both_pressed_empty = Some [0, 1, 2] \<and> analyze_video_button both_pressed_empty \<and>
           video_user_query both_pressed_empty = []"
    by (simp add: both_pressed_empty_def idle_inputs_def)
  have i: "image_file both_pressed_empty = Some red_pixel_png \<and>
           analyze_image_button both_pressed_empty \<and> image_user_query both_pressed_empty = []"
    by (simp add: both_pressed_empty_def idle_inputs_def)
  have o: "image_opens twice_processing red_pixel_png"
    by (simp add: twice_processing_def)
  from v i o
    empty_query_warns_without_network
      [where i = both_pressed_empty and bs = "[0, 1, 2]" and sv = twice_processing and w = empty_world]
    empty_query_warns_without_network
      [where i = both_pressed_empty and bs = red_pixel_png and sv = twice_processing
         and w = empty_world]
  show ?thesis by blast
qed

text \<open>
  C6. When the preview is shown, the query is not empty and an exception is raised by the
  upload, by a fetch during polling or by the model call, the handler returns with the message rendered as
  an inline error after the preview, and the scratch file is gone; deleting it again
  would not raise, since a missing file is tolerated.
\<close>

theorem error_surfaced_and_scratch_deleted:
  assumes shown: "opens k sv bs"
    and query: "q \<noteq> []"
    and raised:
      "upload_file sv p (Some bs) = Inl err \<or>
       (\<exists>h w2. upload_file sv p (Some bs) = Inr h \<and>
          poll sv h (log_call (UploadFile p) (render (preview k p) (write_scratch p bs w)))
            = Some (Inl err, w2)) \<or>
       (\<exists>h h' w2. upload_file sv p (Some bs) = Inr h \<and>
          poll sv h (log_call (UploadFile p) (render (preview k p) (write_scratch p bs w)))
            = Some (Inr h', w2) \<and>
          agent_run sv (analysis_prompt k q) (attach k h') = Inl err)"
  shows "\<exists>w'. media_tab k sv (Some bs) p q True w = Some (Inr w') \<and>
           ui w' = ui w @ [preview k p, Error (str ''An error occurred during analysis: '' @ err)] \<and>
           files w' p = None \<and>
           unlink p True (files w') = Some (files w')"
proof -
  let ?w0 = "render (preview k p) (write_scratch p bs w)"
  have up: "files ?w0 p = Some bs"
    by (simp add: staged_fields)
  have "\<exists>w1. try_body k sv p q ?w0 = Some (Inl err, w1) \<and> ui w1 = ui ?w0"
    using raised
  proof (elim disjE exE conjE)
    assume "upload_file sv p (Some bs) = Inl err"
    with up show ?thesis
      by (simp add: try_body_upload_raises staged_fields)
  next
    fix h w2
    assume u: "upload_file sv p (Some bs) = Inr h"
      and pl: "poll sv h (log_call (UploadFile p) ?w0) = Some (Inl err, w2)"
    from poll_frame [OF pl] have "ui w2 = ui ?w0"
      by (simp add: staged_fields)
    with u pl up show ?thesis
      by (simp add: try_body_poll_raises)
  next
    fix h h' w2
    assume u: "upload_file sv p (Some bs) = Inr h"
      and pl: "poll sv h (log_call (UploadFile p) ?w0) = Some (Inr h', w2)"
      and ag: "agent_run sv (analysis_prompt k q) (attach k h') = Inl err"
    from poll_frame [OF pl] have "ui w2 = ui ?w0"
      by (simp add: staged_fields)
    moreover from u up have "upload_file sv p (files ?w0 p) = Inr h"
      by simp
    ultimately show ?thesis
      using pl ag by (simp add: try_body_staged staged_fields)
  qed
  then obtain w1 where tb: "try_body k sv p q ?w0 = Some (Inl err, w1)" and ui1: "ui w1 = ui ?w0"
    by blast
  let ?w' = "cleanup p (render (Error (str ''An error occurred during analysis: '' @ err)) w1)"
  have "media_tab k sv (Some bs) p q True w = Some (Inr ?w')"
    by (simp add: media_tab_pressed [OF shown] analyze_raised [OF query tb])
  moreover have "ui ?w' = ui w @ [preview k p, Error (str ''An error occurred during analysis: '' @ err)]"
    by (simp add: cleanup_other staged_fields ui1)
  moreover have "files ?w' p = None"
    by (simp add: cleanup_files)
  moreover have "unlink p True (files ?w') = Some (files ?w')"
    by (simp add: cleanup_files unlink_def)
  ultimately show ?thesis by blast
qed


theorem error_surfaced_and_scratch_deleted_witness:
  "opens VideoKind fetch_breaks [0, 1, 2] \<and> str ''What is shown?'' \<noteq> [] \<and>
   upload_file fetch_breaks (video_tmp idle_inputs) (Some [0, 1, 2]) = Inr (remote PROCESSING) \<and>
   poll fetch_breaks (remote PROCESSING)
     (log_call (UploadFile (video_tmp idle_inputs))
        (render (preview VideoKind (video_tmp idle_inputs))
           (write_scratch (video_tmp idle_inputs) [0, 1, 2] empty_world)))
     = Some (Inl (str ''connection reset''),
          \<lparr>files = [video_tmp idle_inputs \<mapsto> [0, 1, 2]],
           ui = [Video (video_tmp idle_inputs)],
           calls = [UploadFile (video_tmp idle_inputs), Sleep 1, GetFile (str ''files/abc''),
                    Sleep 1, GetFile (str ''files/abc'')],
           fetches = 2\<rparr>) \<and>
   (\<exists>w'. media_tab VideoKind fetch_breaks (Some [0, 1, 2]) (video_tmp idle_inputs)
           (str ''What is shown?'') True empty_world = Some (Inr w') \<and>
         ui w' = ui empty_world @
           [preview VideoKind (video_tmp idle_inputs),
            Error (str ''An error occurred during analysis: '' @ str ''connection reset'')] \<and>
         files w' (video_tmp idle_inputs) = None \<and>
         unlink (video_tmp idle_inputs) True (files w') = Some (files w'))"
proof -
  let ?p = "video_tmp idle_inputs"
  let ?w0 = "log_call (UploadFile ?p) (render (preview VideoKind ?p) (write_scratch ?p [0, 1, 2] empty_world))"
  let ?w1 = "?w0\<lparr>calls := calls ?w0 @ [Sleep 1, GetFile (name (remote PROCESSING))],
                  fetches := Suc (fetches ?w0)\<rparr>"
  let ?w2 = "?w1\<lparr>calls := calls ?w1 @ [Sleep 1, GetFile (name (remote PROCESSING))],
                  fetches := Suc (fetches ?w1)\<rparr>"
  have o: "opens VideoKind fetch_breaks [0, 1, 2]"
    by simp
  have q: "str ''What is shown?'' \<noteq> []"
    by (simp add: str_def)
  have u: "upload_file fetch_breaks ?p (Some [0, 1, 2]) = Inr (remote PROCESSING)"
    by (simp add: fetch_breaks_def)
  have st: "state (remote PROCESSING) = PROCESSING"
    by (simp add: remote_def)
  have g0: "get_file fetch_breaks (fetches ?w0) (name (remote PROCESSING)) = Inr (remote PROCESSING)"
    by (simp add: fetch_breaks_def staged_fields empty_world_def)
  have g1: "get_file fetch_breaks (fetches ?w1) (name (remote PROCESSING)) = Inl (str ''connection reset'')"
    by (simp add: fetch_breaks_def staged_fields empty_world_def)
  have "poll fetch_breaks (remote PROCESSING) ?w0 = poll fetch_breaks (remote PROCESSING) ?w1"
    by (rule poll_fetch [OF st g0])
  also have "\<dots> = Some (Inl (str ''connection reset''), ?w2)"
    by (rule poll_raise [OF st g1])
  finally have pl: "poll fetch_breaks (remote PROCESSING) ?w0 = Some (Inl (str ''connection reset''), ?w2)" .
  have w2: "?w2 = \<lparr>files = [?p \<mapsto> [0, 1, 2]], ui = [Video ?p],
                 calls = [UploadFile ?p, Sleep 1, GetFile (str ''files/abc''),
                          Sleep 1, GetFile (str ''files/abc'')],
                 fetches = 2\<rparr>"
    by (simp add: log_call_def render_def write_scratch_def empty_world_def remote_def)
  from u pl have
    "upload_file fetch_breaks ?p (Some [0, 1, 2]) = Inl (str ''connection reset'') \<or>
     (\<exists>h w2. upload_file fetch_breaks ?p (Some [0, 1, 2]) = Inr h \<and>
        poll fetch_breaks h ?w0 = Some (Inl (str ''connection reset''), w2)) \<or>
     (\<exists>h h' w2. upload_file fetch_breaks ?p (Some [0, 1, 2]) = Inr h \<and>
        poll fetch_breaks h ?w0 = Some (Inr h', w2) \<and>
        agent_run fetch_breaks (analysis_prompt VideoKind (str ''What is shown?'')) (attach VideoKind h')
          = Inl (str ''connection reset''))"
    by blast
  from error_surfaced_and_scratch_deleted [OF o q this] o q u pl w2
  show ?thesis by simp
qed

text \<open>
  C7, as stated, fails: a handle that turns FAILED while it is polled leaves the loop like
  an ACTIVE one and is handed to the model call; when that call answers, the answer is
  rendered as the analysis result and no error is shown.
\<close>

theorem failed_handle_shown_as_result:
  "map_option (map_sum id ui) (video_tab fails_while_polling video_asked empty_world) =
     Some (Inr [Video (str ''/tmp/tmpvideo.mp4''), Subheader (str ''Analysis Result''),
                Markdown (str ''ok'')]) \<and>
   map_option (map_sum id calls) (video_tab fails_while_polling video_asked empty_world) =
     Some (Inr [UploadFile (str ''/tmp/tmpvideo.mp4''), Sleep 1, GetFile (str ''files/abc''),
                AgentRun (video_analysis_prompt (str ''What is shown?'')) (Videos [remote FAILED])])"
proof -
  let ?p = "str ''/tmp/tmpvideo.mp4''"
  let ?q = "str ''What is shown?''"
  let ?w0 = "log_call (UploadFile ?p) (render (Video ?p) (write_scratch ?p [0, 1, 2] empty_world))"
  let ?w1 = "?w0\<lparr>calls := calls ?w0 @ [Sleep 1, GetFile (name (remote PROCESSING))],
                  fetches := Suc (fetches ?w0)\<rparr>"
  let ?run = "AgentRun (analysis_prompt VideoKind ?q) (attach VideoKind (remote FAILED))"
  let ?w3 = "render (Markdown (str ''ok'')) (render (Subheader (str ''Analysis Result''))
               (log_call ?run ?w1))"
  have st: "state (remote PROCESSING) = PROCESSING"
    by (simp add: remote_def)
  have fl: "state (remote FAILED) \<noteq> PROCESSING"
    by (simp add: remote_def)
  have gf: "get_file fails_while_polling (fetches ?w0) (name (remote PROCESSING)) = Inr (remote FAILED)"
    by (simp add: fails_while_polling_def)
  have up: "upload_file fails_while_polling x y = Inr (remote PROCESSING)" for x y
    by (simp add: fails_while_polling_def)
  have ag: "agent_run fails_while_polling x m = Inr (str ''ok'')" for x m
    by (simp add: fails_while_polling_def)
  have q: "?q \<noteq> []"
    by (simp add: str_def)
  have "poll fails_while_polling (remote PROCESSING) ?w0 = poll fails_while_polling (remote FAILED) ?w1"
    by (rule poll_fetch [OF st gf])
  also have "\<dots> = Some (Inr (remote FAILED), ?w1)"
    by (rule poll_ready [OF fl])
  finally have pl: "poll fails_while_polling (remote PROCESSING) ?w0 = Some (Inr (remote FAILED), ?w1)" .
  have tb: "try_body VideoKind fails_while_polling ?p ?q
              (render (Video ?p) (write_scratch ?p [0, 1, 2] empty_world)) = Some (Inr (), ?w3)"
    using try_body_staged [OF up pl, where k = VideoKind and q = ?q]
    by (simp add: ag)
  have vt: "video_tab fails_while_polling video_asked empty_world =
      map_option Inr (analyze VideoKind fails_while_polling ?p ?q
        (render (Video ?p) (write_scratch ?p [0, 1, 2] empty_world)))"
    by (simp add: video_tab_def media_tab_def show_preview_def video_asked_def idle_inputs_def)
  have r: "video_tab fails_while_polling video_asked empty_world = Some (Inr (cleanup ?p ?w3))"
    unfolding vt analyze_returned [OF q tb] by simp
  have "ui (cleanup ?p ?w3) =
      [Video ?p, Subheader (str ''Analysis Result''), Markdown (str ''ok'')]"
    by (simp add: cleanup_other staged_fields empty_world_def)
  moreover have "calls (cleanup ?p ?w3) =
      [UploadFile ?p, Sleep 1, GetFile (str ''files/abc''),
       AgentRun (video_analysis_prompt ?q) (Videos [remote FAILED])]"
    by (simp add: cleanup_other staged_fields empty_world_def remote_def)
  ultimately show ?thesis
    unfolding r by simp
qed

text \<open>
  C7, amended. The loop returns a handle only when its state is not PROCESSING, and a
  FAILED handle ends it at once. The script never looks at FAILED: whatever handle the
  loop returns, FAILED or ACTIVE, is passed to the model call, and when the call returns,
  its content is rendered as the result; an error is shown only when a call raises.
\<close>

theorem failed_handle_goes_to_model:
  "(poll sv h w = Some (Inr h', w') \<longrightarrow> state h' \<noteq> PROCESSING) \<and>
   (state h = FAILED \<longrightarrow> poll sv h w = Some (Inr h, w)) \<and>
   (q \<noteq> [] \<and> upload_file sv p (files w p) = Inr h \<and>
    poll sv h (log_call (UploadFile p) w) = Some (Inr hf, w2) \<and>
    agent_run sv (analysis_prompt k q) (attach k hf) = Inr content \<longrightarrow>
      analyze k sv p q w =
        Some (cleanup p (render (Markdown content) (render (Subheader (str ''Analysis Result''))
                (log_call (AgentRun (analysis_prompt k q) (attach k hf)) w2)))))"
proof (intro conjI impI)
  assume "poll sv h w = Some (Inr h', w')"
  then show "state h' \<noteq> PROCESSING" by (rule poll_result_state)
next
  assume "state h = FAILED"
  then show "poll sv h w = Some (Inr h, w)"
    by (simp add: poll_ready)
next
  assume a: "q \<noteq> [] \<and> upload_file sv p (files w p) = Inr h \<and>
    poll sv h (log_call (UploadFile p) w) = Some (Inr hf, w2) \<and>
    agent_run sv (analysis_prompt k q) (attach k hf) = Inr content"
  then have "try_body k sv p q w =
      Some (Inr (), render (Markdown content) (render (Subheader (str ''Analysis Result''))
                (log_call (AgentRun (analysis_prompt k q) (attach k hf)) w2)))"
    by (simp add: try_body_staged)
  with a show "analyze k sv p q w =
        Some (cleanup p (render (Markdown content) (render (Subheader (str ''Analysis Result''))
                (log_call (AgentRun (analysis_prompt k q) (attach k hf)) w2))))"
    by (simp add: analyze_returned)
qed

theorem failed_handle_goes_to_model_witness:
  "poll fails_while_polling (remote PROCESSING) (log_call (UploadFile (str ''/tmp/tmpvideo.mp4'')) empty_world) =
     Some (Inr (remote FAILED),
           \<lparr>files = Map.empty, ui = [],
            calls = [UploadFile (str ''/tmp/tmpvideo.mp4''), Sleep 1, GetFile (str ''files/abc'')],
            fetches = 1\<rparr>) \<and>
   state (remote FAILED) \<noteq> PROCESSING \<and>
   state (remote FAILED) = FAILED \<and>
   poll fails_while_polling (remote FAILED) empty_world = Some (Inr (remote FAILED), empty_world) \<and>
   str ''What is shown?'' \<noteq> [] \<and>
   upload_file fails_while_polling (str ''/tmp/tmpvideo.mp4'') (files empty_world (str ''/tmp/tmpvideo.mp4''))
     = Inr (remote PROCESSING) \<and>
   agent_run fails_while_polling (analysis_prompt VideoKind (str ''What is shown?''))
     (attach VideoKind (remote FAILED)) = Inr (str ''ok'') \<and>
   analyze VideoKind fails_while_polling (str ''/tmp/tmpvideo.mp4'') (str ''What is shown?'') empty_world =
     Some (cleanup (str ''/tmp/tmpvideo.mp4'')
             (render (Markdown (str ''ok'')) (render (Subheader (str ''Analysis Result''))
                (log_call (AgentRun (analysis_prompt VideoKind (str ''What is shown?''))
                             (attach VideoKind (remote FAILED)))
                   \<lparr>files = Map.empty, ui = [],
                    calls = [UploadFile (str ''/tmp/tmpvideo.mp4''), Sleep 1,
                             GetFile (str ''files/abc'')],
                    fetches = 1\<rparr>))))"
proof -
  let ?p = "str ''/tmp/tmpvideo.mp4''"
  let ?q = "str ''What is shown?''"
  let ?w0 = "log_call (UploadFile ?p) empty_world"
  let ?w1 = "?w0\<lparr>calls := calls ?w0 @ [Sleep 1, GetFile (name (remote PROCESSING))],
                  fetches := Suc (fetches ?w0)\<rparr>"
  let ?w2 = "\<lparr>files = Map.empty, ui = [],
              calls = [UploadFile ?p, Sleep 1, GetFile (str ''files/abc'')], fetches = 1\<rparr>"
  have st: "state (remote PROCESSING) = PROCESSING"
    by (simp add: remote_def)
  have fl: "state (remote FAILED) \<noteq> PROCESSING"
    by (simp add: remote_def)
  have fd: "state (remote FAILED) = FAILED"
    by (simp add: remote_def)
  have gf: "get_file fails_while_polling (fetches ?w0) (name (remote PROCESSING)) = Inr (remote FAILED)"
    by (simp add: fails_while_polling_def)
  have w12: "?w1 = ?w2"
    by (simp add: log_call_def empty_world_def remote_def)
  have "poll fails_while_polling (remote PROCESSING) ?w0 = poll fails_while_polling (remote FAILED) ?w1"
    by (rule poll_fetch [OF st gf])
  also have "\<dots> = Some (Inr (remote FAILED), ?w1)"
    by (rule poll_ready [OF fl])
  finally have pl: "poll fails_while_polling (remote PROCESSING) ?w0 = Some (Inr (remote FAILED), ?w2)"
    unfolding w12 .
  have q: "?q \<noteq> []"
    by (simp add: str_def)
  have u: "upload_file fails_while_polling ?p (files empty_world ?p) = Inr (remote PROCESSING)"
    by (simp add: fails_while_polling_def)
  have g: "agent_run fails_while_polling (analysis_prompt VideoKind ?q)
     (attach VideoKind (remote FAILED)) = Inr (str ''ok'')"
    by (simp add: fails_while_polling_def)
  from failed_handle_goes_to_model
         [where sv = fails_while_polling and h = "remote PROCESSING" and w = ?w0
            and h' = "remote FAILED" and w' = ?w2] pl
  have 1: "state (remote FAILED) \<noteq> PROCESSING"
    by blast
  from failed_handle_goes_to_model
         [where sv = fails_while_polling and h = "remote FAILED" and w = empty_world] fd
  have 2: "poll fails_while_polling (remote FAILED) empty_world = Some (Inr (remote FAILED), empty_world)"
    by blast
  from failed_handle_goes_to_model
         [where sv = fails_while_polling and h = "remote PROCESSING" and w = empty_world
            and q = ?q and p = ?p and k = VideoKind and content = "str ''ok''"
            and hf = "remote FAILED" and ?w2.0 = ?w2] q u pl g
  have 3: "analyze VideoKind fails_while_polling ?p ?q empty_world =
     Some (cleanup ?p
             (render (Markdown (str ''ok'')) (render (Subheader (str ''Analysis Result''))
                (log_call (AgentRun (analysis_prompt VideoKind ?q) (attach VideoKind (remote FAILED)))
                   ?w2))))"
    by blast
  from pl 1 fd 2 q u g 3 show ?thesis by blast
qed

text \<open>
  C9. A query that is not empty but all whitespace is accepted by the video and image
  handlers: when the preview is shown and staging completes, no warning is rendered, the upload and the model
  call are both made, with the blank query in the prompt. The same string as text on the
  summarization tab is stripped to nothing and gets the warning.
\<close>

theorem whitespace_query_accepted:
  assumes shown: "opens k sv bs"
    and nonempty: "q \<noteq> []"
    and blank: "\<forall>c\<in>set q. isspace c"
    and upload: "upload_file sv p (Some bs) = Inr h"
    and staged: "poll sv h (log_call (UploadFile p) (render (preview k p) (write_scratch p bs w)))
                   = Some (Inr h', w2)"
  shows "\<exists>w' cs. media_tab k sv (Some bs) p q True w = Some (Inr w') \<and>
           ui w' = ui w @ preview k p #
             (case agent_run sv (analysis_prompt k q) (attach k h') of
                Inl e \<Rightarrow> [Error (str ''An error occurred during analysis: '' @ e)]
              | Inr content \<Rightarrow> [Subheader (str ''Analysis Result''), Markdown content]) \<and>
           Warning (empty_query_warning k) \<notin> set (drop (length (ui w)) (ui w')) \<and>
           calls w' = calls w @ UploadFile p # cs @ [AgentRun (analysis_prompt k q) (attach k h')] \<and>
           strip q = [] \<and>
           summarize sv c q w =
             render (Warning (str ''Please provide some text or upload a file to summarize.'')) w"
proof -
  let ?w0 = "render (preview k p) (write_scratch p bs w)"
  let ?run = "AgentRun (analysis_prompt k q) (attach k h')"
  from poll_frame [OF staged] have ui2: "ui w2 = ui w @ [preview k p]"
    by (simp add: staged_fields)
  from poll_calls [OF staged] obtain cs where cs: "calls w2 = calls w @ UploadFile p # cs"
    by (auto simp: staged_fields)
  from upload have up: "upload_file sv p (files ?w0 p) = Inr h"
    by (simp add: staged_fields)
  have sb: "strip q = []"
    by (rule strip_blank [OF blank])
  have sm: "summarize sv c q w =
      render (Warning (str ''Please provide some text or upload a file to summarize.'')) w"
    by (simp add: summarize_def sb)
  show ?thesis
  proof (cases "agent_run sv (analysis_prompt k q) (attach k h')")
    case (Inl e)
    let ?w' = "cleanup p (render (Error (str ''An error occurred during analysis: '' @ e))
                 (log_call ?run w2))"
    from Inl have "try_body k sv p q ?w0 = Some (Inl e, log_call ?run w2)"
      by (simp add: try_body_staged [OF up staged])
    then have "media_tab k sv (Some bs) p q True w = Some (Inr ?w')"
      by (simp add: media_tab_pressed [OF shown] analyze_raised [OF nonempty])
    moreover have "ui ?w' = ui w @ preview k p #
             (case agent_run sv (analysis_prompt k q) (attach k h') of
                Inl e \<Rightarrow> [Error (str ''An error occurred during analysis: '' @ e)]
              | Inr content \<Rightarrow> [Subheader (str ''Analysis Result''), Markdown content])"
      by (simp add: Inl cleanup_other staged_fields ui2)
    moreover have "Warning (empty_query_warning k) \<notin> set (drop (length (ui w)) (ui ?w'))"
      by (cases k) (simp_all add: cleanup_other staged_fields ui2)
    moreover have "calls ?w' = calls w @ UploadFile p # cs @ [?run]"
      by (simp add: cleanup_other staged_fields cs)
    ultimately show ?thesis using sb sm by blast
  next
    case (Inr content)
    let ?w' = "cleanup p (render (Markdown content) (render (Subheader (str ''Analysis Result''))
                 (log_call ?run w2)))"
    from Inr have "try_body k sv p q ?w0 = Some (Inr (), render (Markdown content)
        (render (Subheader (str ''Analysis Result'')) (log_call ?run w2)))"
      by (simp add: try_body_staged [OF up staged])
    then have "media_tab k sv (Some bs) p q True w = Some (Inr ?w')"
      by (simp add: media_tab_pressed [OF shown] analyze_returned [OF nonempty])
    moreover have "ui ?w' = ui w @ preview k p #
             (case agent_run sv (analysis_prompt k q) (attach k h') of
                Inl e \<Rightarrow> [Error (str ''An error occurred during analysis: '' @ e)]
              | Inr content \<Rightarrow> [Subheader (str ''Analysis Result''), Markdown content])"
      by (simp add: Inr cleanup_other staged_fields ui2)
    moreover have "Warning (empty_query_warning k) \<notin> set (drop (length (ui w)) (ui ?w'))"
      by (cases k) (simp_all add: cleanup_other staged_fields ui2)
    moreover have "calls ?w' = calls w @ UploadFile p # cs @ [?run]"
      by (simp add: cleanup_other staged_fields cs)
    ultimately show ?thesis using sb sm by blast
  qed
qed


theorem whitespace_query_accepted_witness:
  "opens VideoKind twice_processing [0, 1, 2] \<and>
   blank_query \<noteq> [] \<and> list_all isspace blank_query \<and>
   upload_file twice_processing (str ''/tmp/tmpvideo.mp4'') (Some [0, 1, 2]) = Inr (remote PROCESSING) \<and>
   poll twice_processing (remote PROCESSING)
     (log_call (UploadFile (str ''/tmp/tmpvideo.mp4''))
        (render (preview VideoKind (str ''/tmp/tmpvideo.mp4''))
           (write_scratch (str ''/tmp/tmpvideo.mp4'') [0, 1, 2] empty_world)))
     = Some (Inr (remote ACTIVE),
          \<lparr>files = [str ''/tmp/tmpvideo.mp4'' \<mapsto> [0, 1, 2]],
           ui = [Video (str ''/tmp/tmpvideo.mp4'')],
           calls = [UploadFile (str ''/tmp/tmpvideo.mp4''), Sleep 1, GetFile (str ''files/abc''),
                    Sleep 1, GetFile (str ''files/abc'')],
           fetches = 2\<rparr>) \<and>
   (\<exists>w' cs. media_tab VideoKind twice_processing (Some [0, 1, 2]) (str ''/tmp/tmpvideo.mp4'')
              blank_query True empty_world = Some (Inr w') \<and>
      ui w' = [Video (str ''/tmp/tmpvideo.mp4''), Subheader (str ''Analysis Result''),
               Markdown (str ''A red circle.'')] \<and>
      Warning (empty_query_warning VideoKind) \<notin> set (ui w') \<and>
      calls w' = UploadFile (str ''/tmp/tmpvideo.mp4'') # cs @
                 [AgentRun (analysis_prompt VideoKind blank_query) (attach VideoKind (remote ACTIVE))] \<and>
      strip blank_query = [] \<and>
      summarize twice_processing [] blank_query empty_world =
        render (Warning (str ''Please provide some text or upload a file to summarize.'')) empty_world)"
proof -
  let ?p = "str ''/tmp/tmpvideo.mp4''"
  let ?w0 = "log_call (UploadFile ?p) (render (preview VideoKind ?p) (write_scratch ?p [0, 1, 2] empty_world))"
  have n: "blank_query \<noteq> []"
    by (simp add: blank_query_def)
  have b: "\<forall>c\<in>set blank_query. isspace c"
    by (simp add: blank_query_def isspace_def)
  have u: "upload_file twice_processing ?p (Some [0, 1, 2]) = Inr (remote PROCESSING)"
    by (simp add: twice_processing_def)
  have c: "chain twice_processing (fetches ?w0) [remote PROCESSING, remote PROCESSING] (remote ACTIVE)"
    by (simp add: twice_processing_def staged_fields empty_world_def remote_def)
  have a: "state (remote ACTIVE) \<noteq> PROCESSING"
    by (simp add: remote_def)
  from poll_chain [OF c a]
  have pl: "poll twice_processing (remote PROCESSING) ?w0 =
      Some (Inr (remote ACTIVE),
          \<lparr>files = [?p \<mapsto> [0, 1, 2]], ui = [Video ?p],
           calls = [UploadFile ?p, Sleep 1, GetFile (str ''files/abc''),
                    Sleep 1, GetFile (str ''files/abc'')],
           fetches = 2\<rparr>)"
    by (simp add: polled_def log_call_def render_def write_scratch_def empty_world_def remote_def)
  have g: "agent_run twice_processing x m = Inr (str ''A red circle.'')" for x m
    by (simp add: twice_processing_def)
  from b have b': "list_all isspace blank_query"
    by (simp add: list_all_iff)
  have o: "opens VideoKind twice_processing [0, 1, 2]"
    by simp
  from whitespace_query_accepted [OF o n b u pl, where c = "[]"] o n b' u pl
  show ?thesis
    by (simp add: g empty_world_def)
qed

text \<open>
  C4, as stated, fails for the custom instructions: instructions that are blank after
  stripping are replaced by the empty string, so a tab character given as instructions
  does not occur in the prompt.
\<close>

theorem blank_instructions_dropped:
  "\<not> sublist [9] (summary_prompt [9] (str ''abc''))"
proof
  assume "sublist [9] (summary_prompt [9] (str ''abc''))"
  then have "set [9] \<subseteq> set (summary_prompt [9] (str ''abc''))"
    by (rule set_mono_sublist)
  then show False
    by (simp add: summary_prompt_def strip_def isspace_def str_def NL_def)
qed

text \<open>
  C4, amended. Each prompt is a function of the user's strings alone. The video and image
  prompts contain the query as it is, the summary prompt contains the text body as it is,
  and it contains the custom instructions as they are whenever they are not blank after
  stripping; blank instructions give the prompt of empty instructions.
\<close>

theorem prompt_contains_inputs:
  "sublist q (video_analysis_prompt q) \<and>
   sublist q (image_analysis_prompt q) \<and>
   sublist t (summary_prompt c t) \<and>
   (strip c \<noteq> [] \<longrightarrow> sublist c (summary_prompt c t)) \<and>
   (strip c = [] \<longrightarrow> summary_prompt c t = summary_prompt [] t)"
proof (intro conjI impI)
  show "sublist q (video_analysis_prompt q)"
    unfolding video_analysis_prompt_def by (rule sublist_here | rule sublist_skip)+
  show "sublist q (image_analysis_prompt q)"
    unfolding image_analysis_prompt_def by (rule sublist_here | rule sublist_skip)+
  show "sublist t (summary_prompt c t)"
    unfolding summary_prompt_def by (rule sublist_here | rule sublist_skip)+
  show "sublist c (summary_prompt c t)" if "strip c \<noteq> []"
  proof -
    from that have kept: "(if strip c \<noteq> [] then c else []) = c"
      by simp
    show ?thesis
      unfolding summary_prompt_def kept by (rule sublist_here | rule sublist_skip)+
  qed
  show "summary_prompt c t = summary_prompt [] t" if "strip c = []"
    using that by (simp add: summary_prompt_def strip_def)
qed


theorem prompt_contains_inputs_witness:
  "sublist (str ''What is shown?'') (video_analysis_prompt (str ''What is shown?'')) \<and>
   sublist (str ''What is shown?'') (image_analysis_prompt (str ''What is shown?'')) \<and>
   sublist (str ''Some text.'') (summary_prompt (str ''Use bullets'') (str ''Some text.'')) \<and>
   strip (str ''Use bullets'') \<noteq> [] \<and>
   sublist (str ''Use bullets'') (summary_prompt (str ''Use bullets'') (str ''Some text.'')) \<and>
   strip [9] = [] \<and>
   summary_prompt [9] (str ''Some text.'') = summary_prompt [] (str ''Some text.'')"
proof -
  have kept: "strip (str ''Use bullets'') \<noteq> []"
    by (simp add: strip_def isspace_def str_def)
  have dropped: "strip [9] = []"
    by (simp add: strip_def isspace_def)
  from prompt_contains_inputs
         [where q = "str ''What is shown?''" and t = "str ''Some text.''" and c = "str ''Use bullets''"]
       prompt_contains_inputs
         [where q = "str ''What is shown?''" and t = "str ''Some text.''" and c = "[9]"]
       kept dropped
  show ?thesis by blast
qed

text \<open>
  C5. When a text file is uploaded and decodes, its content is the resolved text whatever
  was typed. With the button pressed the handler goes on only if that content is not
  blank after stripping: blank content renders the warning and makes no call, other
  content makes exactly the model call with the summary prompt of the file's content.
\<close>

theorem file_takes_precedence:
  assumes upl: "text_file i = Some bs"
    and decoded: "utf8_decode bs = Some s"
    and pressed: "summarize_text_button i"
  shows "resolve_text (text_file i) (text_input i) = Inr s \<and>
         (\<exists>w'. text_tab sv i w = Inr w' \<and>
            (if strip s = []
             then ui w' = ui w @ [Subheader (str ''Text Summarization''),
                    Warning (str ''Please provide some text or upload a file to summarize.'')] \<and>
                  calls w' = calls w
             else calls w' = calls w @ [AgentRun (summary_prompt (summary_prompt_input i) s) NoMedia]))"
proof -
  let ?w1 = "render (Subheader (str ''Text Summarization'')) w"
  from upl decoded have r: "resolve_text (text_file i) (text_input i) = Inr s"
    by (simp add: resolve_text_def)
  with pressed have t: "text_tab sv i w = Inr (summarize sv (summary_prompt_input i) s ?w1)"
    by (simp add: text_tab_def)
  show ?thesis
  proof (cases "strip s = []")
    case True
    with r t show ?thesis
      by (simp add: summarize_blank staged_fields)
  next
    case False
    with r t show ?thesis
      by (simp add: summarize_calls staged_fields)
  qed
qed

theorem file_takes_precedence_witness:
  "text_file text_and_file = Some [104, 105] \<and> utf8_decode [104, 105] = Some (str ''hi'') \<and>
   summarize_text_button text_and_file \<and> text_input text_and_file = str ''typed'' \<and>
   resolve_text (text_file text_and_file) (text_input text_and_file) = Inr (str ''hi'') \<and>
   (\<exists>w'. text_tab model_down text_and_file empty_world = Inr w' \<and>
      calls w' = calls empty_world @ [AgentRun (summary_prompt [] (str ''hi'')) NoMedia])"
proof -
  have f: "text_file text_and_file = Some [104, 105]"
    by (simp add: text_and_file_def idle_inputs_def)
  have d: "utf8_decode [104, 105] = Some (str ''hi'')"
    by (simp add: str_def)
  have b: "summarize_text_button text_and_file"
    by (simp add: text_and_file_def idle_inputs_def)
  have t: "text_input text_and_file = str ''typed''"
    by (simp add: text_and_file_def idle_inputs_def)
  have s: "strip (str ''hi'') \<noteq> []"
    by (simp add: strip_def isspace_def str_def)
  have c: "summary_prompt_input text_and_file = []"
    by (simp add: text_and_file_def idle_inputs_def)
  from file_takes_precedence [OF f d b, where sv = model_down and w = empty_world] s c
  have "resolve_text (text_file text_and_file) (text_input text_and_file) = Inr (str ''hi'') \<and>
   (\<exists>w'. text_tab model_down text_and_file empty_world = Inr w' \<and>
      calls w' = calls empty_world @ [AgentRun (summary_prompt [] (str ''hi'')) NoMedia])"
    by simp
  with f d b t show ?thesis by blast
qed

text \<open>
  C8. A page run in which the uploaded text file is the single byte FF ends with
  UnicodeDecodeError leaving the script: no handler catches it and nothing is rendered
  for it, whether or not the button is pressed.
\<close>

theorem undecodable_text_file_escapes:
  "page sv (idle_inputs\<lparr>text_file := Some [255], summarize_text_button := pressed\<rparr>) w =
     Some (Inl UnicodeDecodeError)"
  by (simp add: page_def video_tab_def image_tab_def media_tab_def text_tab_def resolve_text_def
      idle_inputs_def)

text \<open>
  C10. The uploaded text file is decoded strictly as UTF-8 while the text tab is rendered,
  before the button is looked at and outside the \<^verbatim>\<open>try\<close>: when the bytes are
  not valid UTF-8 the tab ends with UnicodeDecodeError uncaught. The witness is the file
  of the single byte FF, with and without the button pressed.
\<close>

theorem decode_outside_try:
  assumes "text_file i = Some bs" and "utf8_decode bs = None"
  shows "resolve_text (text_file i) (text_input i) = Inl UnicodeDecodeError \<and>
         text_tab sv i w = Inl UnicodeDecodeError"
  using assms by (simp add: text_tab_def resolve_text_def)

theorem decode_outside_try_witness:
  "text_file bad_text_file = Some [255] \<and> utf8_decode [255] = None \<and>
   resolve_text (text_file bad_text_file) (text_input bad_text_file) = Inl UnicodeDecodeError \<and>
   text_tab model_down bad_text_file empty_world = Inl UnicodeDecodeError \<and>
   text_tab model_down (bad_text_file\<lparr>summarize_text_button := True\<rparr>) empty_world
     = Inl UnicodeDecodeError"
proof -
  have f: "text_file bad_text_file = Some [255]"
    by (simp add: bad_text_file_def idle_inputs_def)
  have f': "text_file (bad_text_file\<lparr>summarize_text_button := True\<rparr>) = Some [255]"
    by (simp add: bad_text_file_def idle_inputs_def)
  have d: "utf8_decode [255] = None"
    by simp
  from decode_outside_try [OF f d, where sv = model_down and w = empty_world]
       decode_outside_try [OF f' d, where sv = model_down and w = empty_world] f d
  show ?thesis by simp
qed

end
